theory Spec2Isabelle
  imports Complex_Main
begin

section \<open>Python and NumPy values\<close>

text \<open>
  The notebook \<^verbatim>\<open>BPAC_OneSubject.ipynb\<close> computes with Python integers and NumPy
  float64 arrays. Finite floats are modelled as exact reals (rounding, overflow and the
  sign of zero are left out); the special values that NumPy produces on a division by
  zero are kept, because HOL's own \<open>x / 0 = 0\<close> is not what NumPy does.
  Where the code branches on the exact value of a float reduction (the mean and the
  standard deviation of the surrogates), the reduction is a parameter and nothing is
  assumed of its value. Python exceptions are values of the type \<open>error\<close>.
\<close>

datatype error = ZeroDivisionError | ValueError

datatype npfloat = Fin real | PInf | NInf | NaN

fun np_neg :: "npfloat \<Rightarrow> npfloat" where
  "np_neg (Fin a) = Fin (- a)"
| "np_neg PInf = NInf"
| "np_neg NInf = PInf"
| "np_neg NaN = NaN"

fun np_abs :: "npfloat \<Rightarrow> npfloat" where
  "np_abs (Fin a) = Fin \<bar>a\<bar>"
| "np_abs PInf = PInf"
| "np_abs NInf = PInf"
| "np_abs NaN = NaN"

fun np_add :: "npfloat \<Rightarrow> npfloat \<Rightarrow> npfloat" where
  "np_add (Fin a) (Fin b) = Fin (a + b)"
| "np_add NaN y = NaN"
| "np_add x NaN = NaN"
| "np_add PInf NInf = NaN"
| "np_add NInf PInf = NaN"
| "np_add PInf y = PInf"
| "np_add NInf y = NInf"
| "np_add (Fin a) PInf = PInf"
| "np_add (Fin a) NInf = NInf"

definition np_sub :: "npfloat \<Rightarrow> npfloat \<Rightarrow> npfloat" where
  "np_sub x y = np_add x (np_neg y)"

text \<open>The product of an infinity with a finite factor: \<open>inf * 0\<close> is \<open>nan\<close>.\<close>

definition inf_times :: "bool \<Rightarrow> real \<Rightarrow> npfloat" where
  "inf_times positive b =
     (if b = 0 then NaN else if (0 < b) = positive then PInf else NInf)"

fun np_mul :: "npfloat \<Rightarrow> npfloat \<Rightarrow> npfloat" where
  "np_mul (Fin a) (Fin b) = Fin (a * b)"
| "np_mul NaN y = NaN"
| "np_mul x NaN = NaN"
| "np_mul PInf (Fin b) = inf_times True b"
| "np_mul NInf (Fin b) = inf_times False b"
| "np_mul (Fin a) PInf = inf_times True a"
| "np_mul (Fin a) NInf = inf_times False a"
| "np_mul PInf PInf = PInf"
| "np_mul PInf NInf = NInf"
| "np_mul NInf PInf = NInf"
| "np_mul NInf NInf = PInf"

text \<open>
  NumPy's true division of float64 values: \<open>0 / 0\<close> is \<open>nan\<close> and \<open>x / 0\<close> is an
  infinity with the sign of \<open>x\<close> (a warning, no exception).
\<close>

fun np_div :: "npfloat \<Rightarrow> npfloat \<Rightarrow> npfloat" where
  "np_div (Fin a) (Fin b) =
     (if b = 0 then (if a = 0 then NaN else if 0 < a then PInf else NInf)
      else Fin (a / b))"
| "np_div NaN y = NaN"
| "np_div x NaN = NaN"
| "np_div (Fin a) PInf = Fin 0"
| "np_div (Fin a) NInf = Fin 0"
| "np_div PInf (Fin b) = (if 0 \<le> b then PInf else NInf)"
| "np_div NInf (Fin b) = (if 0 \<le> b then NInf else PInf)"
| "np_div PInf y = NaN"
| "np_div NInf y = NaN"

text \<open>Comparisons: every ordered comparison with \<open>nan\<close> is false, \<open>nan != y\<close> is true.\<close>

fun np_gt :: "npfloat \<Rightarrow> npfloat \<Rightarrow> bool" where
  "np_gt (Fin a) (Fin b) = (b < a)"
| "np_gt NaN y = False"
| "np_gt x NaN = False"
| "np_gt PInf PInf = False"
| "np_gt PInf y = True"
| "np_gt NInf y = False"
| "np_gt (Fin a) PInf = False"
| "np_gt (Fin a) NInf = True"

fun np_le :: "npfloat \<Rightarrow> npfloat \<Rightarrow> bool" where
  "np_le NaN y = False"
| "np_le x NaN = False"
| "np_le x y = (\<not> np_gt x y)"

fun np_eq :: "npfloat \<Rightarrow> npfloat \<Rightarrow> bool" where
  "np_eq NaN y = False"
| "np_eq x NaN = False"
| "np_eq x y = (x = y)"

definition np_ne :: "npfloat \<Rightarrow> npfloat \<Rightarrow> bool" where
  "np_ne x y = (\<not> np_eq x y)"

text \<open>
  \<^verbatim>\<open>np.sum\<close> and \<^verbatim>\<open>np.dot\<close> over one axis of float64 values, accumulated from zero.
\<close>

definition np_sum :: "npfloat list \<Rightarrow> npfloat" where
  "np_sum xs = fold (\<lambda>x acc. np_add acc x) xs (Fin 0)"

section \<open>Step 3: Segmentation\<close>

text \<open>
  \<^verbatim>\<open>L_fLength = int(np.shape(npy_data)[1]/G_nFragments)\<close>: the quotient of two Python
  integers is a float, truncated by \<^verbatim>\<open>int\<close>; for the lengths of arrays (below \<open>2^53\<close>)
  that is the integer quotient. A zero fragment count raises \<^verbatim>\<open>ZeroDivisionError\<close>.
  No other check is made.
\<close>

definition L_fLength :: "nat \<Rightarrow> nat \<Rightarrow> error + nat" where
  "L_fLength T F = (if F = 0 then Inl ZeroDivisionError else Inr (T div F))"

text \<open>A Python slice \<^verbatim>\<open>x[a:b]\<close> with \<open>0 \<le> a\<close>, \<open>0 \<le> b\<close>: clipped to the length of \<open>x\<close>.\<close>

definition slice :: "nat \<Rightarrow> nat \<Rightarrow> 'a list \<Rightarrow> 'a list" where
  "slice a b xs = take (b - a) (drop a xs)"

text \<open>
  The loop \<^verbatim>\<open>for i in range(G_nFragments)\<close> stores the slice
  \<^verbatim>\<open>[i * L_fLength : (i + 1) * L_fLength]\<close> of every channel as fragment \<open>i\<close>.
\<close>

definition fragments_of_channel :: "nat \<Rightarrow> nat \<Rightarrow> 'a list \<Rightarrow> 'a list list" where
  "fragments_of_channel F L x = map (\<lambda>i. slice (i * L) ((i + 1) * L) x) [0..<F]"

text \<open>
  The array of fragments, indexed by channel, fragment and time. \<open>T\<close> is the second
  component of the shape of the signal array, the common length of its rows.
\<close>

definition ip_theta_fragments :: "nat \<Rightarrow> nat \<Rightarrow> 'a list list \<Rightarrow> error + 'a list list list" where
  "ip_theta_fragments T F ip_theta =
     (case L_fLength T F of
        Inl e \<Rightarrow> Inl e
      | Inr L \<Rightarrow> Inr (map (fragments_of_channel F L) ip_theta))"

section \<open>Arrays and loops\<close>

text \<open>
  A NumPy array of a fixed shape is a function of its indices; the shape (the
  number of channels \<open>C\<close> and of fragments \<open>F\<close>) is passed along, and the code reads
  and writes cells inside the shape only. \<open>set3\<close> is the write \<^verbatim>\<open>A[i, j, k] = v\<close>.
\<close>

type_synonym 'a arr1 = "nat \<Rightarrow> 'a"
type_synonym 'a arr2 = "nat \<Rightarrow> nat \<Rightarrow> 'a"
type_synonym 'a arr3 = "nat \<Rightarrow> nat \<Rightarrow> nat \<Rightarrow> 'a"

definition set3 :: "'a arr3 \<Rightarrow> nat \<Rightarrow> nat \<Rightarrow> nat \<Rightarrow> 'a \<Rightarrow> 'a arr3" where
  "set3 A i j k v = A(i := (A i)(j := (A i j)(k := v)))"

text \<open>\<^verbatim>\<open>A.flatten()\<close> of an array of shape \<open>(n0, n1, n2)\<close>: the last index runs fastest.\<close>

definition flatten3 :: "nat \<Rightarrow> nat \<Rightarrow> nat \<Rightarrow> 'a arr3 \<Rightarrow> 'a list" where
  "flatten3 n0 n1 n2 A =
     concat (map (\<lambda>i. concat (map (\<lambda>j. map (\<lambda>k. A i j k) [0..<n2]) [0..<n1])) [0..<n0])"

text \<open>\<^verbatim>\<open>for k in range(n): body\<close>, threading the state.\<close>

definition for_range :: "nat \<Rightarrow> (nat \<Rightarrow> 's \<Rightarrow> 's) \<Rightarrow> 's \<Rightarrow> 's" where
  "for_range n body s = fold body [0..<n] s"

text \<open>
  The loop nest that the notebook uses throughout:
  \<^verbatim>\<open>for frag in range(G_nFragments): for i in range(G_nChannels): for j in range(G_nChannels)\<close>.
\<close>

definition loop3 :: "nat \<Rightarrow> nat \<Rightarrow> (nat \<Rightarrow> nat \<Rightarrow> nat \<Rightarrow> 's \<Rightarrow> 's) \<Rightarrow> 's \<Rightarrow> 's" where
  "loop3 F C body =
     for_range F (\<lambda>frag. for_range C (\<lambda>i. for_range C (\<lambda>j. body frag i j)))"

section \<open>Step 4: z-scores and significant PAC values\<close>

text \<open>
  \<^verbatim>\<open>G_zThreshold_Bonferroni = norm.ppf(1 - G_Alpha/G_nFragments)\<close>. The inverse normal
  distribution function \<^verbatim>\<open>norm.ppf\<close> belongs to SciPy and is a parameter. The
  quotient of a Python float by the integer zero raises.
\<close>

definition G_zThreshold_Bonferroni :: "(real \<Rightarrow> npfloat) \<Rightarrow> real \<Rightarrow> nat \<Rightarrow> error + npfloat" where
  "G_zThreshold_Bonferroni ppf G_Alpha G_nFragments =
     (if G_nFragments = 0 then Inl ZeroDivisionError
      else Inr (ppf (1 - G_Alpha / real G_nFragments)))"

text \<open>
  \<^verbatim>\<open>np.mean\<close> and \<^verbatim>\<open>np.std\<close> are NumPy's float64 reductions over the surrogate axis.
  They are parameters \<open>np_mean\<close> and \<open>np_std\<close> of the model: their rounded values are
  not the exact mean and deviation (the float mean of equal surrogates need not be
  their common value, and then the float deviation is not zero), and the guard below
  compares the value that NumPy returned.
\<close>

text \<open>
  The z-score of one coupling value against its surrogates, as the body of the loop
  computes it: zero when the deviation that NumPy returned is zero.
\<close>

definition z_score ::
  "(real list \<Rightarrow> npfloat) \<Rightarrow> (real list \<Rightarrow> npfloat) \<Rightarrow> real \<Rightarrow> real list \<Rightarrow> npfloat" where
  "z_score np_mean np_std real_pac surrogates =
     (let surrogate_mean = np_mean surrogates;
          surrogate_std = np_std surrogates
      in if np_eq surrogate_std (Fin 0) then Fin 0
         else np_div (np_sub (Fin real_pac) surrogate_mean) surrogate_std)"

record sig_state =
  z_scores_fragments :: "npfloat arr3"
  significant_pac_values_fragments :: "real arr3"

text \<open>
  \<open>pac\<close> is \<^verbatim>\<open>pac_values_fragments\<close> and \<open>surr i j frag\<close> is the slice
  \<^verbatim>\<open>surrogate_pac_values_fragments[i, j, :, frag]\<close>, both as TensorPAC returned them.
  The value is stored only under the test; otherwise the cell keeps what it held.
\<close>

definition significance_body ::
  "(real list \<Rightarrow> npfloat) \<Rightarrow> (real list \<Rightarrow> npfloat) \<Rightarrow> npfloat \<Rightarrow> real arr3 \<Rightarrow> real list arr3
     \<Rightarrow> nat \<Rightarrow> nat \<Rightarrow> nat \<Rightarrow> sig_state \<Rightarrow> sig_state" where
  "significance_body np_mean np_std thr pac surr frag i j s =
     (let s1 = s\<lparr>z_scores_fragments :=
                  set3 (z_scores_fragments s) i j frag
                    (z_score np_mean np_std (pac i j frag) (surr i j frag))\<rparr>
      in if np_gt (np_abs (z_scores_fragments s1 i j frag)) thr
         then s1\<lparr>significant_pac_values_fragments :=
                  set3 (significant_pac_values_fragments s1) i j frag (pac i j frag)\<rparr>
         else s1)"

definition significance_loop ::
  "(real list \<Rightarrow> npfloat) \<Rightarrow> (real list \<Rightarrow> npfloat) \<Rightarrow> nat \<Rightarrow> nat \<Rightarrow> npfloat \<Rightarrow> real arr3
     \<Rightarrow> real list arr3 \<Rightarrow> sig_state" where
  "significance_loop np_mean np_std C F thr pac surr =
     loop3 F C (significance_body np_mean np_std thr pac surr)
       \<lparr>z_scores_fragments = (\<lambda>i j k. Fin 0),
        significant_pac_values_fragments = (\<lambda>i j k. 0)\<rparr>"

text \<open>The cell of step 4: the threshold is computed once, then the loops run.\<close>

definition significance_filter ::
  "(real list \<Rightarrow> npfloat) \<Rightarrow> (real list \<Rightarrow> npfloat) \<Rightarrow> (real \<Rightarrow> npfloat) \<Rightarrow> real \<Rightarrow> nat \<Rightarrow> nat
     \<Rightarrow> real arr3 \<Rightarrow> real list arr3 \<Rightarrow> error + sig_state" where
  "significance_filter np_mean np_std ppf G_Alpha C F pac surr =
     (case G_zThreshold_Bonferroni ppf G_Alpha F of
        Inl e \<Rightarrow> Inl e
      | Inr thr \<Rightarrow> Inr (significance_loop np_mean np_std C F thr pac surr))"

text \<open>
  The number of observations that the test \<^verbatim>\<open>abs(z) > threshold\<close> declares significant,
  over all cells of the arrays.
\<close>

definition is_significant ::
  "(real list \<Rightarrow> npfloat) \<Rightarrow> (real list \<Rightarrow> npfloat) \<Rightarrow> npfloat \<Rightarrow> real \<Rightarrow> real list \<Rightarrow> bool" where
  "is_significant np_mean np_std thr real_pac surrogates =
     np_gt (np_abs (z_score np_mean np_std real_pac surrogates)) thr"

definition significant_count ::
  "(real list \<Rightarrow> npfloat) \<Rightarrow> (real list \<Rightarrow> npfloat) \<Rightarrow> nat \<Rightarrow> nat \<Rightarrow> npfloat \<Rightarrow> real arr3
     \<Rightarrow> real list arr3 \<Rightarrow> nat" where
  "significant_count np_mean np_std C F thr pac surr =
     length (filter (\<lambda>(v, su). is_significant np_mean np_std thr v su)
               (flatten3 C C F (\<lambda>i j frag. (pac i j frag, surr i j frag))))"

section \<open>Step 5: the density of the significant values\<close>

text \<open>
  \<^verbatim>\<open>flat = significant_pac_values_fragments.flatten(); flat = flat[flat > 0] * 1e5\<close>.
\<close>

definition significant_pac_values_flat_fragments :: "nat \<Rightarrow> nat \<Rightarrow> real arr3 \<Rightarrow> real list" where
  "significant_pac_values_flat_fragments C F sig =
     map (\<lambda>v. v * 100000) (filter (\<lambda>v. 0 < v) (flatten3 C C F sig))"



section \<open>Step 5: the prior P(i)\<close>

definition counts_body :: "real arr3 \<Rightarrow> nat \<Rightarrow> nat \<Rightarrow> nat \<Rightarrow> real arr1 \<Rightarrow> real arr1" where
  "counts_body sig frag i j counts =
     (if 0 < sig i j frag then counts(i := counts i + 1) else counts)"

definition significant_pac_counts_by_destination :: "nat \<Rightarrow> nat \<Rightarrow> real arr3 \<Rightarrow> real arr1" where
  "significant_pac_counts_by_destination C F sig = loop3 F C (counts_body sig) (\<lambda>i. 0)"

definition total_significant_pacs :: "nat \<Rightarrow> nat \<Rightarrow> real arr3 \<Rightarrow> real" where
  "total_significant_pacs C F sig =
     sum_list (map (significant_pac_counts_by_destination C F sig) [0..<C])"

text \<open>\<^verbatim>\<open>P_i = significant_pac_counts_by_destination / total_significant_pacs\<close>, unguarded.\<close>

definition P_i :: "nat \<Rightarrow> nat \<Rightarrow> real arr3 \<Rightarrow> npfloat arr1" where
  "P_i C F sig =
     (\<lambda>i. np_div (Fin (significant_pac_counts_by_destination C F sig i))
                 (Fin (total_significant_pacs C F sig)))"


section \<open>Step 5: the likelihood P(x|i)\<close>

text \<open>
  The fitted density \<open>kde\<close> is evaluated at the scaled value of every cell that holds a
  positive value; it returns a finite float.
\<close>

definition likelihood_body ::
  "(real \<Rightarrow> real) \<Rightarrow> real arr3 \<Rightarrow> nat \<Rightarrow> nat \<Rightarrow> nat \<Rightarrow> real arr3 \<Rightarrow> real arr3" where
  "likelihood_body kde sig frag i j P =
     (if 0 < sig i j frag then set3 P i j frag (kde (sig i j frag * 100000))
      else set3 P i j frag 0)"

definition P_x_given_i_raw :: "nat \<Rightarrow> nat \<Rightarrow> (real \<Rightarrow> real) \<Rightarrow> real arr3 \<Rightarrow> real arr3" where
  "P_x_given_i_raw C F kde sig = loop3 F C (likelihood_body kde sig) (\<lambda>i j k. 0)"

record lik_state =
  P_x_given_i :: "real arr3"
  P_x_given_i_significant_counts :: "real arr2"

text \<open>
  One round of the normalisation loop, on the slice \<^verbatim>\<open>[:, :, frag]\<close>:
  \<^verbatim>\<open>P_x_given_i_sum = np.sum(P_x_given_i[:, :, frag], axis=0)\<close> sums over the first index
  and is indexed by the second (\<open>column_sum\<close>);
  \<^verbatim>\<open>np.divide(..., P_x_given_i_sum, out=zeros, where=P_x_given_i_sum != 0)\<close>
  broadcasts it along the last axis of the slice, so that cell \<open>(i, j)\<close> is divided by
  entry \<open>j\<close>, and cells with a zero divisor take the zero of \<^verbatim>\<open>out\<close> (\<open>normalized_slice\<close>).
  The counter then adds the cells of the new slice that are \<open>> 0\<close>.
\<close>

definition column_sum :: "nat \<Rightarrow> real arr3 \<Rightarrow> nat \<Rightarrow> nat \<Rightarrow> real" where
  "column_sum C P j frag = sum_list (map (\<lambda>i. P i j frag) [0..<C])"

definition normalized_slice :: "nat \<Rightarrow> real arr3 \<Rightarrow> nat \<Rightarrow> real arr2" where
  "normalized_slice C P frag =
     (\<lambda>i j. if column_sum C P j frag \<noteq> 0 then P i j frag / column_sum C P j frag else 0)"

definition normalize_body :: "nat \<Rightarrow> nat \<Rightarrow> lik_state \<Rightarrow> lik_state" where
  "normalize_body C frag s =
     (let P = P_x_given_i s;
          Q = normalized_slice C P frag
      in \<lparr>P_x_given_i = (\<lambda>i j k. if k = frag \<and> i < C \<and> j < C then Q i j else P i j k),
          P_x_given_i_significant_counts =
            (\<lambda>i j. if i < C \<and> j < C
                    then P_x_given_i_significant_counts s i j + (if 0 < Q i j then 1 else 0)
                    else P_x_given_i_significant_counts s i j)\<rparr>)"

definition likelihood_stage :: "nat \<Rightarrow> nat \<Rightarrow> (real \<Rightarrow> real) \<Rightarrow> real arr3 \<Rightarrow> lik_state" where
  "likelihood_stage C F kde sig =
     for_range F (normalize_body C)
       \<lparr>P_x_given_i = P_x_given_i_raw C F kde sig,
        P_x_given_i_significant_counts = (\<lambda>i j. 0)\<rparr>"

definition P_x_given_i_mean :: "nat \<Rightarrow> nat \<Rightarrow> (real \<Rightarrow> real) \<Rightarrow> real arr3 \<Rightarrow> npfloat arr2" where
  "P_x_given_i_mean C F kde sig =
     (\<lambda>i j. np_div (Fin (P_x_given_i_significant_counts (likelihood_stage C F kde sig) i j))
                   (Fin (real F)))"

section \<open>Step 5: the evidence P(x) and the posterior P(i|x)\<close>

text \<open>\<^verbatim>\<open>P_x[:, frag] = np.dot(P_i, P_x_given_i[:, :, frag])\<close>: entry \<open>j\<close> sums over the first index.\<close>

definition P_x :: "nat \<Rightarrow> npfloat arr1 \<Rightarrow> real arr3 \<Rightarrow> npfloat arr2" where
  "P_x C Pi Pn = (\<lambda>j frag. np_sum (map (\<lambda>i. np_mul (Pi i) (Fin (Pn i j frag))) [0..<C]))"

record post_state =
  P_i_given_x_fragments :: "npfloat arr3"
  P_i_given_x_significant_counts :: "real arr2"

text \<open>
  One round of the loop of Bayes' theorem: row \<open>i\<close> of the slice is multiplied by
  \<open>P_i[i]\<close>, then \<^verbatim>\<open>np.divide(..., P_x[:, frag], out=zeros, where=P_x[:, frag] != 0)\<close>
  divides cell \<open>(i, j)\<close> by \<open>P_x[j, frag]\<close> (\<open>bayes_slice\<close>); the counter adds the cells
  that are \<open>> 0\<close>.
\<close>

definition bayes_slice :: "npfloat arr1 \<Rightarrow> real arr3 \<Rightarrow> npfloat arr2 \<Rightarrow> nat \<Rightarrow> npfloat arr2" where
  "bayes_slice Pi Pn Px frag =
     (\<lambda>i j. if np_ne (Px j frag) (Fin 0)
             then np_div (np_mul (Fin (Pn i j frag)) (Pi i)) (Px j frag) else Fin 0)"

definition posterior_body ::
  "nat \<Rightarrow> npfloat arr1 \<Rightarrow> real arr3 \<Rightarrow> npfloat arr2 \<Rightarrow> nat \<Rightarrow> post_state \<Rightarrow> post_state" where
  "posterior_body C Pi Pn Px frag s =
     (let Q = bayes_slice Pi Pn Px frag
      in \<lparr>P_i_given_x_fragments =
            (\<lambda>i j k. if k = frag \<and> i < C \<and> j < C then Q i j else P_i_given_x_fragments s i j k),
          P_i_given_x_significant_counts =
            (\<lambda>i j. if i < C \<and> j < C
                    then P_i_given_x_significant_counts s i j
                           + (if np_gt (Q i j) (Fin 0) then 1 else 0)
                    else P_i_given_x_significant_counts s i j)\<rparr>)"

definition posterior_loop ::
  "nat \<Rightarrow> nat \<Rightarrow> npfloat arr1 \<Rightarrow> real arr3 \<Rightarrow> npfloat arr2 \<Rightarrow> post_state" where
  "posterior_loop C F Pi Pn Px =
     for_range F (posterior_body C Pi Pn Px)
       \<lparr>P_i_given_x_fragments = (\<lambda>i j k. Fin 0),
        P_i_given_x_significant_counts = (\<lambda>i j. 0)\<rparr>"

text \<open>The cells of step 5 after the density fit, chained as the notebook runs them.\<close>

definition evidence :: "nat \<Rightarrow> nat \<Rightarrow> (real \<Rightarrow> real) \<Rightarrow> real arr3 \<Rightarrow> npfloat arr2" where
  "evidence C F kde sig = P_x C (P_i C F sig) (P_x_given_i (likelihood_stage C F kde sig))"

definition posterior_stage :: "nat \<Rightarrow> nat \<Rightarrow> (real \<Rightarrow> real) \<Rightarrow> real arr3 \<Rightarrow> post_state" where
  "posterior_stage C F kde sig =
     posterior_loop C F (P_i C F sig) (P_x_given_i (likelihood_stage C F kde sig))
       (evidence C F kde sig)"

text \<open>\<^verbatim>\<open>P_i_given_x_mean = P_i_given_x_significant_counts / G_nFragments\<close>.\<close>

definition P_i_given_x_mean :: "nat \<Rightarrow> nat \<Rightarrow> (real \<Rightarrow> real) \<Rightarrow> real arr3 \<Rightarrow> npfloat arr2" where
  "P_i_given_x_mean C F kde sig =
     (\<lambda>i j. np_div (Fin (P_i_given_x_significant_counts (posterior_stage C F kde sig) i j))
                   (Fin (real F)))"

section \<open>The specification's wording, for comparison\<close>

text \<open>
  The normalisation as the specification words it: every cell divided by the sum of its
  row (fixed first index, the destination), rows with a zero sum left at zero.
\<close>

definition spec_row_sum :: "nat \<Rightarrow> real arr3 \<Rightarrow> nat \<Rightarrow> nat \<Rightarrow> real" where
  "spec_row_sum C P i frag = sum_list (map (\<lambda>x. P i x frag) [0..<C])"

definition spec_row_normalized_slice :: "nat \<Rightarrow> real arr3 \<Rightarrow> nat \<Rightarrow> real arr2" where
  "spec_row_normalized_slice C P frag =
     (\<lambda>i x. if spec_row_sum C P i frag \<noteq> 0 then P i x frag / spec_row_sum C P i frag else 0)"

text \<open>
  The aggregate that the notebook does not compute: the mean over the fragments of the
  posterior values themselves.
\<close>

definition mean_of_posteriors :: "nat \<Rightarrow> nat \<Rightarrow> (real \<Rightarrow> real) \<Rightarrow> real arr3 \<Rightarrow> npfloat arr2" where
  "mean_of_posteriors C F kde sig =
     (\<lambda>i j. np_div
               (np_sum (map (\<lambda>frag. P_i_given_x_fragments (posterior_stage C F kde sig) i j frag)
                          [0..<F]))
               (Fin (real F)))"


section \<open>Segmentation: properties\<close>

lemma slice_length:
  "b \<le> length xs \<Longrightarrow> length (slice a b xs) = b - a"
  by (simp add: slice_def)

lemma concat_fragments_of_channel:
  "concat (fragments_of_channel F L x) = take (F * L) x"
proof (induction F)
  case 0
  show ?case by (simp add: fragments_of_channel_def)
next
  case (Suc F)
  have "concat (fragments_of_channel (Suc F) L x)
          = concat (fragments_of_channel F L x) @ slice (F * L) (F * L + L) x"
    by (simp add: fragments_of_channel_def add.commute)
  also have "\<dots> = take (F * L) x @ take L (drop (F * L) x)"
    by (simp add: Suc.IH slice_def)
  also have "\<dots> = take (F * L + L) x"
    by (simp add: take_add)
  finally show ?case by (simp add: add.commute)
qed

lemma fragments_of_channel_lengths:
  assumes "F * L \<le> length x" and "fr \<in> set (fragments_of_channel F L x)"
  shows "length fr = L"
proof -
  from assms(2) obtain i where i: "i < F" and fr: "fr = slice (i * L) ((i + 1) * L) x"
    by (auto simp: fragments_of_channel_def)
  from i have "Suc i \<le> F" by simp
  then have "Suc i * L \<le> F * L" by (rule mult_le_mono1)
  with assms(1) have "(i + 1) * L \<le> length x" by simp
  then have "length fr = (i + 1) * L - i * L" unfolding fr by (rule slice_length)
  then show ?thesis by simp
qed

lemma for_range_0: "for_range 0 body s = s"
  by (simp add: for_range_def)

lemma for_range_Suc: "for_range (Suc n) body s = body n (for_range n body s)"
  by (simp add: for_range_def)

lemma set3_apply:
  "set3 A i j k v i' j' k' = (if i' = i \<and> j' = j \<and> k' = k then v else A i' j' k')"
  by (simp add: set3_def)

text \<open>A loop nest whose body rewrites its own cell only.\<close>

lemma loop_j_cells:
  assumes "\<And>j s i' j' f'. cell (body j s) i' j' f' =
             (if i' = i \<and> j' = j \<and> f' = frag then h j (cell s i j frag) else cell s i' j' f')"
  shows "cell (for_range n body s) i' j' f' =
           (if i' = i \<and> j' < n \<and> f' = frag then h j' (cell s i j' frag) else cell s i' j' f')"
proof (induction n arbitrary: i' j' f')
  case 0
  show ?case by (simp add: for_range_0)
next
  case (Suc n)
  show ?case
    by (simp add: for_range_Suc assms Suc.IH less_Suc_eq)
qed

lemma loop_i_cells:
  assumes "\<And>i j s i' j' f'. cell (body i j s) i' j' f' =
             (if i' = i \<and> j' = j \<and> f' = frag then h i j (cell s i j frag) else cell s i' j' f')"
  shows "cell (for_range m (\<lambda>i. for_range C (\<lambda>j. body i j)) s) i' j' f' =
           (if i' < m \<and> j' < C \<and> f' = frag then h i' j' (cell s i' j' frag) else cell s i' j' f')"
proof (induction m arbitrary: i' j' f')
  case 0
  show ?case by (simp add: for_range_0)
next
  case (Suc m)
  have inner: "\<And>s i' j' f'. cell (for_range C (\<lambda>j. body m j) s) i' j' f' =
           (if i' = m \<and> j' < C \<and> f' = frag then h m j' (cell s m j' frag) else cell s i' j' f')"
    by (rule loop_j_cells) (rule assms)
  show ?case
    by (simp add: for_range_Suc inner Suc.IH less_Suc_eq)
qed

lemma loop3_cells:
  assumes "\<And>frag i j s i' j' f'. cell (body frag i j s) i' j' f' =
             (if i' = i \<and> j' = j \<and> f' = frag then h frag i j (cell s i j frag)
              else cell s i' j' f')"
  shows "cell (loop3 F C body s) i' j' f' =
           (if i' < C \<and> j' < C \<and> f' < F then h f' i' j' (cell s i' j' f') else cell s i' j' f')"
  unfolding loop3_def
proof (induction F arbitrary: i' j' f')
  case 0
  show ?case by (simp add: for_range_0)
next
  case (Suc F)
  have inner: "\<And>s i' j' f'. cell (for_range C (\<lambda>i. for_range C (\<lambda>j. body F i j)) s) i' j' f' =
           (if i' < C \<and> j' < C \<and> f' = F then h F i' j' (cell s i' j' F) else cell s i' j' f')"
    by (rule loop_i_cells) (rule assms)
  show ?case
    by (auto simp add: for_range_Suc inner Suc.IH less_Suc_eq)
qed

section \<open>The significance loop, cell by cell\<close>

lemma z_scores_fragments_cell:
  "z_scores_fragments (significance_loop np_mean np_std C F thr pac surr) i j frag =
     (if i < C \<and> j < C \<and> frag < F then z_score np_mean np_std (pac i j frag) (surr i j frag) else Fin 0)"
  unfolding significance_loop_def
  by (subst loop3_cells [where h = "\<lambda>frag i j old. z_score np_mean np_std (pac i j frag) (surr i j frag)"])
     (simp_all add: significance_body_def Let_def set3_apply)

lemma significant_pac_values_fragments_cell:
  "significant_pac_values_fragments (significance_loop np_mean np_std C F thr pac surr) i j frag =
     (if i < C \<and> j < C \<and> frag < F \<and> is_significant np_mean np_std thr (pac i j frag) (surr i j frag)
      then pac i j frag else 0)"
  unfolding significance_loop_def
  by (subst loop3_cells [where h = "\<lambda>frag i j old.
        if is_significant np_mean np_std thr (pac i j frag) (surr i j frag) then pac i j frag else old"])
     (simp_all add: significance_body_def Let_def set3_apply is_significant_def)

section \<open>The raw likelihood, cell by cell\<close>

lemma P_x_given_i_raw_cell:
  "P_x_given_i_raw C F kde sig i j frag =
     (if i < C \<and> j < C \<and> frag < F \<and> 0 < sig i j frag then kde (sig i j frag * 100000) else 0)"
  unfolding P_x_given_i_raw_def
  by (subst loop3_cells [where cell = "\<lambda>P. P" and h = "\<lambda>frag i j old.
        if 0 < sig i j frag then kde (sig i j frag * 100000) else 0"])
     (simp_all add: likelihood_body_def set3_apply)

section \<open>The counting loop of the prior\<close>

lemma counts_loop_j:
  "for_range n (\<lambda>j. counts_body sig frag i j) c =
     c(i := c i + (\<Sum>j<n. if 0 < sig i j frag then 1 else 0))"
proof (induction n)
  case 0
  show ?case by (simp add: for_range_0 cong: if_cong)
next
  case (Suc n)
  have "for_range (Suc n) (\<lambda>j. counts_body sig frag i j) c
          = counts_body sig frag i n (for_range n (\<lambda>j. counts_body sig frag i j) c)"
    by (rule for_range_Suc)
  also have "\<dots> = counts_body sig frag i n
          (c(i := c i + (\<Sum>j<n. if 0 < sig i j frag then 1 else 0)))"
    by (simp only: Suc.IH)
  also have "\<dots> = c(i := c i + (\<Sum>j<Suc n. if 0 < sig i j frag then 1 else 0))"
    by (simp add: counts_body_def add.assoc)
  finally show ?case .
qed

lemma counts_loop_i:
  "for_range m (\<lambda>i. for_range C (\<lambda>j. counts_body sig frag i j)) c =
     (\<lambda>i. c i + (if i < m then (\<Sum>j<C. if 0 < sig i j frag then 1 else 0) else 0))"
proof (induction m)
  case 0
  show ?case by (simp add: for_range_0 cong: if_cong)
next
  case (Suc m)
  have "for_range (Suc m) (\<lambda>i. for_range C (\<lambda>j. counts_body sig frag i j)) c
          = for_range C (\<lambda>j. counts_body sig frag m j)
              (for_range m (\<lambda>i. for_range C (\<lambda>j. counts_body sig frag i j)) c)"
    by (rule for_range_Suc)
  also have "\<dots> = (\<lambda>i. c i + (if i < Suc m
                 then (\<Sum>j<C. if 0 < sig i j frag then 1 else 0) else 0))"
    unfolding Suc.IH counts_loop_j by (auto simp add: fun_eq_iff)
  finally show ?case .
qed

lemma counts_loop_frag:
  "loop3 F C (counts_body sig) c =
     (\<lambda>i. c i + (if i < C then (\<Sum>frag<F. \<Sum>j<C. if 0 < sig i j frag then 1 else 0) else 0))"
  unfolding loop3_def
proof (induction F)
  case 0
  show ?case by (simp add: for_range_0 cong: if_cong)
next
  case (Suc F)
  have "for_range (Suc F) (\<lambda>frag. for_range C (\<lambda>i. for_range C (\<lambda>j. counts_body sig frag i j))) c
          = for_range C (\<lambda>i. for_range C (\<lambda>j. counts_body sig F i j))
              (for_range F (\<lambda>frag. for_range C (\<lambda>i. for_range C (\<lambda>j. counts_body sig frag i j))) c)"
    by (rule for_range_Suc)
  also have "\<dots> = (\<lambda>i. c i + (if i < C
                 then (\<Sum>frag<Suc F. \<Sum>j<C. if 0 < sig i j frag then 1 else 0) else 0))"
    unfolding Suc.IH counts_loop_i by (auto simp add: fun_eq_iff)
  finally show ?case .
qed

lemma significant_pac_counts_by_destination_eq:
  "significant_pac_counts_by_destination C F sig i =
     (if i < C then (\<Sum>frag<F. \<Sum>j<C. if 0 < sig i j frag then 1 else 0) else 0)"
  by (simp add: significant_pac_counts_by_destination_def counts_loop_frag)

section \<open>The normalisation loop of the likelihood\<close>

lemma normalize_loop:
  "for_range n (normalize_body C)
       \<lparr>P_x_given_i = P0, P_x_given_i_significant_counts = (\<lambda>i j. 0)\<rparr> =
     \<lparr>P_x_given_i =
        (\<lambda>i j k. if k < n \<and> i < C \<and> j < C then normalized_slice C P0 k i j else P0 i j k),
      P_x_given_i_significant_counts =
        (\<lambda>i j. if i < C \<and> j < C
                then (\<Sum>k<n. if 0 < normalized_slice C P0 k i j then 1 else 0) else 0)\<rparr>"
proof (induction n)
  case 0
  show ?case by (simp add: for_range_0 cong: if_cong)
next
  case (Suc n)
  show ?case
    unfolding for_range_Suc Suc.IH
    by (auto simp add: normalize_body_def Let_def fun_eq_iff
          normalized_slice_def column_sum_def less_Suc_eq)
qed

section \<open>The loop of Bayes' theorem\<close>

lemma posterior_loop_eq:
  "for_range n (posterior_body C Pi Pn Px)
       \<lparr>P_i_given_x_fragments = (\<lambda>i j k. Fin 0),
        P_i_given_x_significant_counts = (\<lambda>i j. 0)\<rparr> =
     \<lparr>P_i_given_x_fragments =
        (\<lambda>i j k. if k < n \<and> i < C \<and> j < C then bayes_slice Pi Pn Px k i j else Fin 0),
      P_i_given_x_significant_counts =
        (\<lambda>i j. if i < C \<and> j < C
                then (\<Sum>k<n. if np_gt (bayes_slice Pi Pn Px k i j) (Fin 0) then 1 else 0)
                else 0)\<rparr>"
proof (induction n)
  case 0
  show ?case by (simp add: for_range_0 cong: if_cong)
next
  case (Suc n)
  show ?case
    unfolding for_range_Suc Suc.IH
    by (auto simp add: posterior_body_def Let_def fun_eq_iff bayes_slice_def less_Suc_eq)
qed

section \<open>The stages in closed form\<close>

lemma likelihood_stage_cell:
  "P_x_given_i (likelihood_stage C F kde sig) i j frag =
     (if frag < F \<and> i < C \<and> j < C
      then normalized_slice C (P_x_given_i_raw C F kde sig) frag i j
      else P_x_given_i_raw C F kde sig i j frag)"
  by (simp add: likelihood_stage_def normalize_loop)

lemma likelihood_stage_counts:
  "P_x_given_i_significant_counts (likelihood_stage C F kde sig) i j =
     (if i < C \<and> j < C
      then (\<Sum>k<F. if 0 < normalized_slice C (P_x_given_i_raw C F kde sig) k i j then 1 else 0)
      else 0)"
  by (simp add: likelihood_stage_def normalize_loop)

lemma posterior_loop_cell:
  "P_i_given_x_fragments (posterior_loop C F Pi Pn Px) i j frag =
     (if frag < F \<and> i < C \<and> j < C then bayes_slice Pi Pn Px frag i j else Fin 0)"
  by (simp add: posterior_loop_def posterior_loop_eq)

lemma posterior_loop_counts:
  "P_i_given_x_significant_counts (posterior_loop C F Pi Pn Px) i j =
     (if i < C \<and> j < C
      then (\<Sum>k<F. if np_gt (bayes_slice Pi Pn Px k i j) (Fin 0) then 1 else 0)
      else 0)"
  by (simp add: posterior_loop_def posterior_loop_eq)

section \<open>Sums of floats\<close>

lemma np_add_Fin_iff:
  "np_add x y = Fin r \<longleftrightarrow> (\<exists>a b. x = Fin a \<and> y = Fin b \<and> r = a + b)"
  by (cases x; cases y) auto

lemma fold_np_add_Fin:
  "fold (\<lambda>x acc. np_add acc x) (map Fin rs) (Fin a) = Fin (a + sum_list rs)"
  by (induction rs arbitrary: a) (simp_all add: add.assoc)

lemma np_sum_Fin: "np_sum (map Fin rs) = Fin (sum_list rs)"
  by (simp add: np_sum_def fold_np_add_Fin)

lemma fold_np_add_acc_Fin:
  "fold (\<lambda>x acc. np_add acc x) xs acc = Fin p \<Longrightarrow> \<exists>q. acc = Fin q"
proof (induction xs arbitrary: acc)
  case Nil
  then show ?case by simp
next
  case (Cons y ys)
  from Cons.prems have "fold (\<lambda>x acc. np_add acc x) ys (np_add acc y) = Fin p"
    by simp
  then have "\<exists>q. np_add acc y = Fin q" by (rule Cons.IH)
  then show ?case by (auto simp add: np_add_Fin_iff)
qed

lemma fold_np_add_is_Fin:
  "fold (\<lambda>x acc. np_add acc x) xs acc = Fin p \<Longrightarrow> x \<in> set xs \<Longrightarrow> \<exists>r. x = Fin r"
proof (induction xs arbitrary: acc)
  case Nil
  then show ?case by simp
next
  case (Cons y ys)
  from Cons.prems(1) have step: "fold (\<lambda>x acc. np_add acc x) ys (np_add acc y) = Fin p"
    by simp
  show ?case
  proof (cases "x = y")
    case True
    from step have "\<exists>q. np_add acc y = Fin q" by (rule fold_np_add_acc_Fin)
    then show ?thesis using True by (auto simp add: np_add_Fin_iff)
  next
    case False
    with Cons.prems(2) have "x \<in> set ys" by simp
    with step show ?thesis by (rule Cons.IH)
  qed
qed

lemma np_sum_is_Fin:
  "np_sum xs = Fin p \<Longrightarrow> x \<in> set xs \<Longrightarrow> \<exists>r. x = Fin r"
  unfolding np_sum_def by (rule fold_np_add_is_Fin)

section \<open>Claims about the segmentation\<close>

lemma L_fLength_zero: "L_fLength T 0 = Inl ZeroDivisionError"
  by (simp add: L_fLength_def)

text \<open>
  C3 (as the code has it). For every fragment count \<open>F > 0\<close> the segmentation raises
  nothing, whether or not \<open>F\<close> divides the signal length \<open>T\<close>: each channel gets \<open>F\<close>
  fragments of the common length \<open>L = T div F\<close>, which laid end to end are the first
  \<open>F * L\<close> samples of the channel in temporal order (no overlap, no gap). They are the
  whole channel, with \<open>F * L = T\<close>, exactly when \<open>T mod F = 0\<close>; otherwise the last
  \<open>T mod F\<close> samples are dropped without notice.
\<close>

theorem segmentation_fragments:
  assumes "0 < F" and "row \<in> set ip_theta" and "\<forall>r \<in> set ip_theta. length r = T"
  shows "ip_theta_fragments T F ip_theta
           = Inr (map (fragments_of_channel F (T div F)) ip_theta)
         \<and> length (fragments_of_channel F (T div F) row) = F
         \<and> (\<forall>fr \<in> set (fragments_of_channel F (T div F) row). length fr = T div F)
         \<and> concat (fragments_of_channel F (T div F) row) = take (F * (T div F)) row
         \<and> (T mod F = 0 \<longrightarrow>
              F * (T div F) = T \<and> concat (fragments_of_channel F (T div F) row) = row)
         \<and> (T mod F \<noteq> 0 \<longrightarrow>
              F * (T div F) < T
              \<and> length (concat (fragments_of_channel F (T div F) row)) = T - T mod F)"
proof -
  from assms have len: "length row = T" by simp
  have le: "F * (T div F) \<le> T" by simp
  have a: "ip_theta_fragments T F ip_theta
             = Inr (map (fragments_of_channel F (T div F)) ip_theta)"
    using assms(1) by (simp add: ip_theta_fragments_def L_fLength_def)
  have b: "length (fragments_of_channel F (T div F) row) = F"
    by (simp add: fragments_of_channel_def)
  have c: "\<forall>fr \<in> set (fragments_of_channel F (T div F) row). length fr = T div F"
    using fragments_of_channel_lengths [of F "T div F" row] le len by simp
  have d: "concat (fragments_of_channel F (T div F) row) = take (F * (T div F)) row"
    by (rule concat_fragments_of_channel)
  have e: "T mod F = 0 \<longrightarrow>
             F * (T div F) = T \<and> concat (fragments_of_channel F (T div F) row) = row"
    using len by (auto simp add: d)
  have eq: "F * (T div F) = T - T mod F"
    by (simp add: minus_mod_eq_mult_div)
  have lt: "T mod F \<noteq> 0 \<longrightarrow> F * (T div F) < T"
  proof
    assume "T mod F \<noteq> 0"
    moreover have "T mod F \<le> T" by (rule mod_less_eq_dividend)
    ultimately show "F * (T div F) < T" unfolding eq by arith
  qed
  have f: "T mod F \<noteq> 0 \<longrightarrow>
             F * (T div F) < T
             \<and> length (concat (fragments_of_channel F (T div F) row)) = T - T mod F"
    using lt by (simp add: d len eq [symmetric])
  from a b c d e f show ?thesis by blast
qed

theorem segmentation_fragments_witness:
  "ip_theta_fragments 4 2 [[1, 2, 3, 4 :: real]] = Inr [[[1, 2], [3, 4]]]
   \<and> concat (fragments_of_channel 2 (4 div 2) [1, 2, 3, 4 :: real]) = [1, 2, 3, 4]"
  using segmentation_fragments [of 2 "[1, 2, 3, 4 :: real]" "[[1, 2, 3, 4]]" 4]
  by (simp add: fragments_of_channel_def slice_def upt_rec)

text \<open>
  C3 (as stated) fails: with five samples and two fragments the remainder is not zero,
  no error is raised, and the fifth sample is in no fragment.
\<close>

theorem segmentation_no_error_counterexample:
  "(5::nat) mod 2 \<noteq> 0
   \<and> ip_theta_fragments 5 2 [[1, 2, 3, 4, 5 :: real]] = Inr [[[1, 2], [3, 4]]]"
  by (simp add: ip_theta_fragments_def L_fLength_def fragments_of_channel_def slice_def upt_rec)

section \<open>Claims about the likelihood\<close>

lemma sum_list_upt_divide:
  "sum_list (map (\<lambda>i. f i / c) [0..<n]) = sum_list (map f [0..<n]) / (c::real)"
  by (induction n) (simp_all add: add_divide_distrib)

text \<open>
  C1 (as the code has it). After the normalisation loop, every cell \<open>(i, j)\<close> of every
  fragment holds the raw likelihood divided by the sum of its column: the sum over the
  first index (the destination \<open>i\<close>) at the fixed second index (the source \<open>j\<close>). A
  column whose sum is zero is all zeros, and every other column sums to one.
\<close>

theorem likelihood_normalized_by_column:
  assumes "i < C" and "j < C" and "frag < F"
  shows "P_x_given_i (likelihood_stage C F kde sig) i j frag =
           (if column_sum C (P_x_given_i_raw C F kde sig) j frag = 0 then 0
            else P_x_given_i_raw C F kde sig i j frag
                   / column_sum C (P_x_given_i_raw C F kde sig) j frag)
         \<and> (column_sum C (P_x_given_i_raw C F kde sig) j frag \<noteq> 0 \<longrightarrow>
              column_sum C (P_x_given_i (likelihood_stage C F kde sig)) j frag = 1)"
proof -
  let ?raw = "P_x_given_i_raw C F kde sig"
  let ?s = "column_sum C ?raw j frag"
  have cell: "\<And>i. i < C \<Longrightarrow> P_x_given_i (likelihood_stage C F kde sig) i j frag =
                 (if ?s = 0 then 0 else ?raw i j frag / ?s)"
    using assms(2,3) by (simp add: likelihood_stage_cell normalized_slice_def)
  have "column_sum C (P_x_given_i (likelihood_stage C F kde sig)) j frag = 1" if nz: "?s \<noteq> 0"
  proof -
    have "column_sum C (P_x_given_i (likelihood_stage C F kde sig)) j frag
            = sum_list (map (\<lambda>i. ?raw i j frag / ?s) [0..<C])"
      unfolding column_sum_def [of C "P_x_given_i (likelihood_stage C F kde sig)"]
      by (rule arg_cong [where f = sum_list], rule map_cong) (simp_all add: cell nz)
    also have "\<dots> = sum_list (map (\<lambda>i. ?raw i j frag) [0..<C]) / ?s"
      by (rule sum_list_upt_divide)
    also have "\<dots> = ?s / ?s" by (simp add: column_sum_def)
    also have "\<dots> = 1" using nz by simp
    finally show ?thesis .
  qed
  with cell [OF assms(1)] show ?thesis by blast
qed

theorem likelihood_normalized_by_column_witness:
  "P_x_given_i (likelihood_stage 2 1 (\<lambda>v. 1) (\<lambda>i j frag. if i = 0 then 1 else 0)) 0 0 0 = 1"
  using likelihood_normalized_by_column
          [of 0 2 0 0 1 "\<lambda>v. 1" "\<lambda>i j frag. if i = 0 then 1 else 0"]
  by (simp add: column_sum_def P_x_given_i_raw_cell upt_rec)

text \<open>
  C1 (as stated) fails. Two channels, one fragment, destination 0 significant from both
  sources and a density that is constantly one: the raw likelihoods are the rows
  \<open>[1, 1]\<close> and \<open>[0, 0]\<close>. The code divides by the column sums and leaves cell \<open>(0, 0)\<close>
  at 1, so that the row of destination 0 sums to 2; division by the row sum gives 1/2.
\<close>

theorem likelihood_row_normalization_counterexample:
  "P_x_given_i (likelihood_stage 2 1 (\<lambda>v. 1) (\<lambda>i j frag. if i = 0 then 1 else 0)) 0 0 0 = 1
   \<and> spec_row_normalized_slice 2
        (P_x_given_i_raw 2 1 (\<lambda>v. 1) (\<lambda>i j frag. if i = 0 then 1 else 0)) 0 0 0 = 1 / 2"
  by (simp add: likelihood_stage_cell normalized_slice_def column_sum_def
        spec_row_normalized_slice_def spec_row_sum_def P_x_given_i_raw_cell upt_rec)

section \<open>Claims about the prior\<close>

lemma total_significant_pacs_nonneg: "0 \<le> total_significant_pacs C F sig"
  unfolding total_significant_pacs_def
  by (rule sum_list_nonneg)
     (auto simp add: significant_pac_counts_by_destination_eq intro!: sum_nonneg)

lemma P_i_Fin:
  "total_significant_pacs C F sig \<noteq> 0 \<Longrightarrow>
   P_i C F sig i = Fin (significant_pac_counts_by_destination C F sig i
                          / total_significant_pacs C F sig)"
  by (simp add: P_i_def)


text \<open>
  The cell of the prior evaluated by itself on an array without any positive value:
  the count and the total are both zero and the unguarded division gives \<open>nan\<close>. No
  run gets there (see \<open>prior_in_a_run\<close> below).
\<close>

lemma P_i_zero_total:
  "total_significant_pacs 1 1 (\<lambda>i j frag. 0) = 0
   \<and> P_i 1 1 (\<lambda>i j frag. 0) 0 = NaN"
  by (simp add: P_i_def total_significant_pacs_def significant_pac_counts_by_destination_eq)

section \<open>Claims about the significance filter\<close>

text \<open>
  C4. With a positive fragment count the threshold is \<open>ppf (1 - alpha / F)\<close>, computed
  once and used in every cell. For every cell of the arrays, with \<open>m\<close> and \<open>sd\<close> the
  mean and the standard deviation that NumPy returns for its surrogates: the z-score
  stored is zero when \<open>sd\<close> is zero and \<open>(v - m) / sd\<close> otherwise (the quotient of reals
  when both are finite); the cell of the significant values holds the coupling value
  \<open>v\<close> when \<open>|z|\<close> exceeds the threshold and zero otherwise.
\<close>

theorem significance_decision:
  assumes "0 < F" and "i < C" and "j < C" and "frag < F"
  shows "let thr = ppf (1 - alpha / real F);
             v = pac i j frag;
             m = np_mean (surr i j frag);
             sd = np_std (surr i j frag);
             z = (if np_eq sd (Fin 0) then Fin 0 else np_div (np_sub (Fin v) m) sd);
             s = significance_loop np_mean np_std C F thr pac surr
         in significance_filter np_mean np_std ppf alpha C F pac surr = Inr s
            \<and> z_scores_fragments s i j frag = z
            \<and> (\<forall>a b. m = Fin a \<and> sd = Fin b \<and> b \<noteq> 0 \<longrightarrow> z = Fin ((v - a) / b))
            \<and> (sd = Fin 0 \<longrightarrow> z = Fin 0)
            \<and> significant_pac_values_fragments s i j frag
                = (if np_gt (np_abs z) thr then v else 0)"
  using assms
  by (simp add: significance_filter_def G_zThreshold_Bonferroni_def Let_def
        z_scores_fragments_cell significant_pac_values_fragments_cell
        is_significant_def z_score_def np_sub_def)

text \<open>
  One channel, one fragment, coupling value 3 and surrogates \<open>[0, 2]\<close>, whose mean
  and deviation are both exactly 1 in float64 as well: the z-score is 2.
\<close>

theorem significance_decision_witness:
  "significance_filter (\<lambda>xs. Fin 1) (\<lambda>xs. Fin 1) (\<lambda>p. Fin 1) (1 / 20) 1 1
       (\<lambda>i j frag. 3) (\<lambda>i j frag. [0, 2])
     = Inr (significance_loop (\<lambda>xs. Fin 1) (\<lambda>xs. Fin 1) 1 1 (Fin 1)
              (\<lambda>i j frag. 3) (\<lambda>i j frag. [0, 2]))
   \<and> z_scores_fragments
        (significance_loop (\<lambda>xs. Fin 1) (\<lambda>xs. Fin 1) 1 1 (Fin 1)
           (\<lambda>i j frag. 3) (\<lambda>i j frag. [0, 2])) 0 0 0 = Fin 2
   \<and> significant_pac_values_fragments
        (significance_loop (\<lambda>xs. Fin 1) (\<lambda>xs. Fin 1) 1 1 (Fin 1)
           (\<lambda>i j frag. 3) (\<lambda>i j frag. [0, 2])) 0 0 0 = 3"
  using significance_decision
          [where F = 1 and C = 1 and i = 0 and j = 0 and frag = 0
             and surr = "\<lambda>i j frag. [0, 2]" and ppf = "\<lambda>p. Fin 1" and alpha = "1 / 20"
             and pac = "\<lambda>i j frag. 3" and np_mean = "\<lambda>xs. Fin 1" and np_std = "\<lambda>xs. Fin 1"]
  by (simp add: Let_def np_sub_def)

text \<open>
  The same at surrogates \<open>[1, 1, 1]\<close>, whose float64 mean and deviation are exactly 1
  and 0: the z-score is zero and nothing is kept.
\<close>

lemma significance_zero_spread:
  "z_scores_fragments
     (significance_loop (\<lambda>xs. Fin 1) (\<lambda>xs. Fin 0) 1 1 (Fin 1)
        (\<lambda>i j frag. 5) (\<lambda>i j frag. [1, 1, 1])) 0 0 0 = Fin 0
   \<and> significant_pac_values_fragments
        (significance_loop (\<lambda>xs. Fin 1) (\<lambda>xs. Fin 0) 1 1 (Fin 1)
           (\<lambda>i j frag. 5) (\<lambda>i j frag. [1, 1, 1])) 0 0 0 = 0"
  by (simp add: z_scores_fragments_cell significant_pac_values_fragments_cell
        is_significant_def z_score_def Let_def)

section \<open>Monotonicity in the threshold\<close>

lemma np_gt_mono: "np_le t1 t2 \<Longrightarrow> np_gt z t2 \<Longrightarrow> np_gt z t1"
  by (cases z; cases t1; cases t2) auto

lemma is_significant_mono:
  "np_le t1 t2 \<Longrightarrow> is_significant np_mean np_std t2 v su \<Longrightarrow> is_significant np_mean np_std t1 v su"
  unfolding is_significant_def by (rule np_gt_mono)

lemma length_filter_mono:
  "(\<And>x. P x \<Longrightarrow> Q x) \<Longrightarrow> length (filter P xs) \<le> length (filter Q xs)"
  by (induction xs) auto

lemma total_significant_pacs_eq:
  "total_significant_pacs C F sig =
     (\<Sum>i<C. \<Sum>frag<F. \<Sum>j<C. if 0 < sig i j frag then 1 else 0)"
proof -
  have "total_significant_pacs C F sig =
          sum_list (map (\<lambda>i. \<Sum>frag<F. \<Sum>j<C. if 0 < sig i j frag then 1 else 0) [0..<C])"
    unfolding total_significant_pacs_def
    by (rule arg_cong [where f = sum_list], rule map_cong)
       (simp_all add: significant_pac_counts_by_destination_eq)
  then show ?thesis
    by (simp add: interv_sum_list_conv_sum_set_nat atLeast0LessThan)
qed

text \<open>
  C9. For fixed coupling values and surrogates and thresholds \<open>t1 \<le> t2\<close>: every
  observation that the test declares significant at \<open>t2\<close> is declared significant at
  \<open>t1\<close>, the number of observations declared significant at \<open>t2\<close> is at most the number
  at \<open>t1\<close>, and so is the number of significant values that the prior stage counts.
\<close>

theorem significant_count_antimono:
  assumes "np_le t1 t2"
  shows "(\<forall>v su. is_significant np_mean np_std t2 v su \<longrightarrow> is_significant np_mean np_std t1 v su)
         \<and> significant_count np_mean np_std C F t2 pac surr \<le> significant_count np_mean np_std C F t1 pac surr
         \<and> total_significant_pacs C F
              (significant_pac_values_fragments (significance_loop np_mean np_std C F t2 pac surr))
             \<le> total_significant_pacs C F
                  (significant_pac_values_fragments (significance_loop np_mean np_std C F t1 pac surr))"
proof -
  have a: "\<forall>v su. is_significant np_mean np_std t2 v su \<longrightarrow> is_significant np_mean np_std t1 v su"
    using assms by (blast intro: is_significant_mono)
  have b: "significant_count np_mean np_std C F t2 pac surr \<le> significant_count np_mean np_std C F t1 pac surr"
    unfolding significant_count_def
    by (rule length_filter_mono) (use a in auto)
  have c: "total_significant_pacs C F
              (significant_pac_values_fragments (significance_loop np_mean np_std C F t2 pac surr))
             \<le> total_significant_pacs C F
                  (significant_pac_values_fragments (significance_loop np_mean np_std C F t1 pac surr))"
    unfolding total_significant_pacs_eq
    by (intro sum_mono) (use a in \<open>auto simp add: significant_pac_values_fragments_cell\<close>)
  from a b c show ?thesis by blast
qed

lemma significant_count_example:
  "significant_count (\<lambda>xs. Fin 1) (\<lambda>xs. Fin 1) 1 1 (Fin 3) (\<lambda>i j frag. 3) (\<lambda>i j frag. [0, 2]) = 0
   \<and> significant_count (\<lambda>xs. Fin 1) (\<lambda>xs. Fin 1) 1 1 (Fin 1) (\<lambda>i j frag. 3) (\<lambda>i j frag. [0, 2]) = 1"
  by (simp add: significant_count_def flatten3_def is_significant_def z_score_def Let_def
        np_sub_def)

theorem significant_count_antimono_witness:
  "np_le (Fin 1) (Fin 3)
   \<and> significant_count (\<lambda>xs. Fin 1) (\<lambda>xs. Fin 1) 1 1 (Fin 3) (\<lambda>i j frag. 3) (\<lambda>i j frag. [0, 2])
        \<le> significant_count (\<lambda>xs. Fin 1) (\<lambda>xs. Fin 1) 1 1 (Fin 1) (\<lambda>i j frag. 3) (\<lambda>i j frag. [0, 2])"
proof -
  have h: "np_le (Fin 1) (Fin 3)" by simp
  show ?thesis
    using h significant_count_antimono
        [OF h, where C = 1 and F = 1 and pac = "\<lambda>i j frag. 3" and surr = "\<lambda>i j frag. [0, 2]"
           and np_mean = "\<lambda>xs. Fin 1" and np_std = "\<lambda>xs. Fin 1"]
    by simp
qed

section \<open>Claims about Bayes' theorem\<close>

lemma np_mul_commute: "np_mul x y = np_mul y x"
  by (cases x; cases y) (simp_all add: mult.commute)

lemma posterior_stage_cell:
  "P_i_given_x_fragments (posterior_stage C F kde sig) i j frag =
     (if frag < F \<and> i < C \<and> j < C
      then bayes_slice (P_i C F sig) (P_x_given_i (likelihood_stage C F kde sig))
             (evidence C F kde sig) frag i j
      else Fin 0)"
  by (simp add: posterior_stage_def posterior_loop_cell)

lemma posterior_stage_counts:
  "P_i_given_x_significant_counts (posterior_stage C F kde sig) i j =
     (if i < C \<and> j < C
      then (\<Sum>k<F. if np_gt (P_i_given_x_fragments (posterior_stage C F kde sig) i j k) (Fin 0)
                    then 1 else 0)
      else 0)"
  by (simp add: posterior_stage_def posterior_loop_counts posterior_loop_cell)

text \<open>
  C7. For a fragment and a source \<open>x\<close> inside the arrays whose evidence is a positive
  number: the evidence is the sum over the destinations \<open>i\<close> of \<open>P(i) * P(x|i)\<close>, every
  posterior cell of the column is \<open>P(x|i) * P(i) / P(x)\<close>, and the column of posteriors
  sums to one.
\<close>

theorem posterior_column_sums_to_one:
  assumes "x < C" and "frag < F" and "evidence C F kde sig x frag = Fin p" and "0 < p"
  shows "evidence C F kde sig x frag =
           np_sum (map (\<lambda>i. np_mul (P_i C F sig i)
                                (Fin (P_x_given_i (likelihood_stage C F kde sig) i x frag)))
                     [0..<C])
         \<and> (\<forall>i<C. P_i_given_x_fragments (posterior_stage C F kde sig) i x frag =
                     np_div (np_mul (Fin (P_x_given_i (likelihood_stage C F kde sig) i x frag))
                                    (P_i C F sig i))
                            (evidence C F kde sig x frag))
         \<and> np_sum (map (\<lambda>i. P_i_given_x_fragments (posterior_stage C F kde sig) i x frag)
                     [0..<C]) = Fin 1"
proof -
  let ?Pn = "P_x_given_i (likelihood_stage C F kde sig)"
  let ?t = "\<lambda>i. np_mul (P_i C F sig i) (Fin (?Pn i x frag))"
  let ?post = "\<lambda>i. P_i_given_x_fragments (posterior_stage C F kde sig) i x frag"
  have ev: "evidence C F kde sig x frag = np_sum (map ?t [0..<C])"
    by (simp add: evidence_def P_x_def)
  have cell: "?post i = np_div (np_mul (Fin (?Pn i x frag)) (P_i C F sig i))
                               (evidence C F kde sig x frag)" if "i < C" for i
    using that assms by (simp add: posterior_stage_cell bayes_slice_def np_ne_def)
  define r where "r = (\<lambda>i. case ?t i of Fin a \<Rightarrow> a | _ \<Rightarrow> 0)"
  have r: "?t i = Fin (r i)" if "i < C" for i
  proof -
    have "\<exists>a. ?t i = Fin a"
    proof (rule np_sum_is_Fin)
      show "np_sum (map ?t [0..<C]) = Fin p" using ev assms(3) by simp
      show "?t i \<in> set (map ?t [0..<C])" using that by simp
    qed
    then show ?thesis by (auto simp add: r_def)
  qed
  have "map ?t [0..<C] = map Fin (map r [0..<C])"
    by (simp add: r)
  then have "np_sum (map ?t [0..<C]) = Fin (sum_list (map r [0..<C]))"
    by (simp only: np_sum_Fin)
  with ev assms(3) have p: "sum_list (map r [0..<C]) = p" by simp
  have post: "?post i = Fin (r i / p)" if "i < C" for i
  proof -
    have "np_mul (Fin (?Pn i x frag)) (P_i C F sig i) = Fin (r i)"
      using r [OF that] by (simp only: np_mul_commute)
    with cell [OF that] assms(3,4) show ?thesis by simp
  qed
  have "map ?post [0..<C] = map Fin (map (\<lambda>i. r i / p) [0..<C])"
    by (simp add: post)
  then have "np_sum (map ?post [0..<C]) = Fin (sum_list (map (\<lambda>i. r i / p) [0..<C]))"
    by (simp only: np_sum_Fin)
  also have "sum_list (map (\<lambda>i. r i / p) [0..<C]) = sum_list (map r [0..<C]) / p"
    by (rule sum_list_upt_divide)
  also have "\<dots> = 1" using p assms(4) by simp
  finally have one: "np_sum (map ?post [0..<C]) = Fin 1" .
  from ev cell one show ?thesis by blast
qed

lemma evidence_example:
  "evidence 2 1 (\<lambda>v. 1) (\<lambda>i j frag. if j = 0 then 1 else 0) 0 0 = Fin (1 / 2)"
  by (simp add: evidence_def P_x_def P_i_def total_significant_pacs_def
        significant_pac_counts_by_destination_eq likelihood_stage_cell normalized_slice_def
        column_sum_def P_x_given_i_raw_cell np_sum_def upt_rec lessThan_Suc numeral_2_eq_2)

theorem posterior_column_sums_to_one_witness:
  "evidence 2 1 (\<lambda>v. 1) (\<lambda>i j frag. if j = 0 then 1 else 0) 0 0 = Fin (1 / 2)
   \<and> np_sum (map (\<lambda>i. P_i_given_x_fragments
                       (posterior_stage 2 1 (\<lambda>v. 1) (\<lambda>i j frag. if j = 0 then 1 else 0)) i 0 0)
               [0..<2]) = Fin 1"
  using evidence_example
    posterior_column_sums_to_one
      [of 0 2 0 1 "\<lambda>v. 1" "\<lambda>i j frag. if j = 0 then 1 else 0" "1 / 2", OF _ _ evidence_example]
  by simp

section \<open>Claims about the aggregate\<close>

lemma indicator_sum_bounds:
  "0 \<le> (\<Sum>k<F. if P k then 1 else (0::real)) \<and> (\<Sum>k<F. if P k then 1 else (0::real)) \<le> real F"
proof
  show "0 \<le> (\<Sum>k<F. if P k then 1 else (0::real))"
    by (rule sum_nonneg) simp
  have "(\<Sum>k<F. if P k then 1 else (0::real)) \<le> (\<Sum>k<F. 1)"
    by (rule sum_mono) simp
  then show "(\<Sum>k<F. if P k then 1 else (0::real)) \<le> real F" by simp
qed

lemma indicator_sum_card:
  "(\<Sum>k<F. if P k then 1 else (0::real)) = real (card {k::nat. k < F \<and> P k})"
proof -
  have "(\<Sum>k<F. if P k then 1 else (0::real)) = sum (\<lambda>k. 1) {k \<in> {..<F}. P k}"
    by (rule sum.inter_filter [symmetric]) simp
  then show ?thesis by simp
qed

lemma P_i_given_x_mean_Fin:
  assumes "0 < F"
  shows "P_i_given_x_mean C F kde sig i j =
           Fin (P_i_given_x_significant_counts (posterior_stage C F kde sig) i j / real F)"
  using assms by (simp add: P_i_given_x_mean_def)

text \<open>
  C5. With a positive number of fragments, every entry of the aggregate posterior
  matrix is a finite number between 0 and 1, whatever the stored values and the density
  are. In every fragment, the posterior of a source whose evidence is zero is zero.
\<close>

theorem aggregate_posterior_in_unit_interval:
  assumes "0 < F"
  shows "(\<exists>r. P_i_given_x_mean C F kde sig i j = Fin r \<and> 0 \<le> r \<and> r \<le> 1)
         \<and> (\<forall>frag. frag < F \<and> i < C \<and> j < C \<and> evidence C F kde sig j frag = Fin 0 \<longrightarrow>
               P_i_given_x_fragments (posterior_stage C F kde sig) i j frag = Fin 0)"
proof
  let ?c = "P_i_given_x_significant_counts (posterior_stage C F kde sig) i j"
  have "0 \<le> ?c \<and> ?c \<le> real F"
    using indicator_sum_bounds [of "\<lambda>k. np_gt (P_i_given_x_fragments
             (posterior_stage C F kde sig) i j k) (Fin 0)" F]
    by (simp add: posterior_stage_counts)
  then have "0 \<le> ?c / real F \<and> ?c / real F \<le> 1"
    using assms by simp
  then show "\<exists>r. P_i_given_x_mean C F kde sig i j = Fin r \<and> 0 \<le> r \<and> r \<le> 1"
    using P_i_given_x_mean_Fin [OF assms] by blast
  show "\<forall>frag. frag < F \<and> i < C \<and> j < C \<and> evidence C F kde sig j frag = Fin 0 \<longrightarrow>
          P_i_given_x_fragments (posterior_stage C F kde sig) i j frag = Fin 0"
    by (simp add: posterior_stage_cell bayes_slice_def np_ne_def)
qed

lemma evidence_zero_example:
  "evidence 2 1 (\<lambda>v. 1) (\<lambda>i j frag. if j = 0 then 1 else 0) 1 0 = Fin 0"
  by (simp add: evidence_def P_x_def P_i_def total_significant_pacs_def
        significant_pac_counts_by_destination_eq likelihood_stage_cell normalized_slice_def
        column_sum_def P_x_given_i_raw_cell np_sum_def upt_rec lessThan_Suc numeral_2_eq_2)

theorem aggregate_posterior_in_unit_interval_witness:
  "(\<exists>r. P_i_given_x_mean 2 1 (\<lambda>v. 1) (\<lambda>i j frag. if j = 0 then 1 else 0) 0 1 = Fin r
         \<and> 0 \<le> r \<and> r \<le> 1)
   \<and> evidence 2 1 (\<lambda>v. 1) (\<lambda>i j frag. if j = 0 then 1 else 0) 1 0 = Fin 0
   \<and> P_i_given_x_fragments
        (posterior_stage 2 1 (\<lambda>v. 1) (\<lambda>i j frag. if j = 0 then 1 else 0)) 0 1 0 = Fin 0"
  using evidence_zero_example
    aggregate_posterior_in_unit_interval
      [of 1 2 "\<lambda>v. 1" "\<lambda>i j frag. if j = 0 then 1 else 0" 0 1]
  by simp

section \<open>Signs of the posterior\<close>

lemma P_x_given_i_raw_nonneg:
  "\<forall>v. 0 \<le> kde v \<Longrightarrow> 0 \<le> P_x_given_i_raw C F kde sig i j frag"
  by (simp add: P_x_given_i_raw_cell)

lemma likelihood_stage_nonneg:
  assumes "\<forall>v. 0 \<le> kde v"
  shows "0 \<le> P_x_given_i (likelihood_stage C F kde sig) i j frag"
proof -
  have "0 \<le> column_sum C (P_x_given_i_raw C F kde sig) j frag"
    unfolding column_sum_def
    by (rule sum_list_nonneg) (use assms in \<open>auto simp add: P_x_given_i_raw_nonneg\<close>)
  then show ?thesis
    using P_x_given_i_raw_nonneg [OF assms]
    by (simp add: likelihood_stage_cell normalized_slice_def)
qed

lemma significant_pac_counts_by_destination_nonneg:
  "0 \<le> significant_pac_counts_by_destination C F sig i"
  by (auto simp add: significant_pac_counts_by_destination_eq intro!: sum_nonneg)

lemma evidence_nonneg:
  assumes "\<forall>v. 0 \<le> kde v" and "total_significant_pacs C F sig \<noteq> 0"
  shows "\<exists>q. evidence C F kde sig j frag = Fin q \<and> 0 \<le> q"
proof -
  let ?t = "total_significant_pacs C F sig"
  let ?c = "significant_pac_counts_by_destination C F sig"
  let ?Pn = "P_x_given_i (likelihood_stage C F kde sig)"
  let ?r = "\<lambda>i. ?c i / ?t * ?Pn i j frag"
  have t: "0 < ?t" using assms(2) total_significant_pacs_nonneg [of C F sig] by simp
  have "map (\<lambda>i. np_mul (P_i C F sig i) (Fin (?Pn i j frag))) [0..<C] = map Fin (map ?r [0..<C])"
    using assms(2) by (simp add: P_i_Fin)
  then have "evidence C F kde sig j frag = Fin (sum_list (map ?r [0..<C]))"
    unfolding evidence_def P_x_def by (simp only: np_sum_Fin)
  moreover have "0 \<le> sum_list (map ?r [0..<C])"
    by (rule sum_list_nonneg)
       (use t likelihood_stage_nonneg [OF assms(1)] significant_pac_counts_by_destination_nonneg
         in auto)
  ultimately show ?thesis by blast
qed

lemma posterior_nonneg:
  assumes "\<forall>v. 0 \<le> kde v" and "total_significant_pacs C F sig \<noteq> 0"
  shows "\<exists>v. P_i_given_x_fragments (posterior_stage C F kde sig) i j frag = Fin v \<and> 0 \<le> v"
proof -
  let ?t = "total_significant_pacs C F sig"
  have t: "0 < ?t" using assms(2) total_significant_pacs_nonneg [of C F sig] by simp
  obtain q where q: "evidence C F kde sig j frag = Fin q" "0 \<le> q"
    using evidence_nonneg [OF assms] by blast
  have n: "0 \<le> P_x_given_i (likelihood_stage C F kde sig) i j frag
                  * (significant_pac_counts_by_destination C F sig i / ?t) / q"
    using q(2) t likelihood_stage_nonneg [OF assms(1)]
      significant_pac_counts_by_destination_nonneg [of C F sig i]
    by simp
  show ?thesis
    using n q(1) assms(2)
    by (simp add: posterior_stage_cell bayes_slice_def np_ne_def P_i_Fin)
qed

lemma posterior_positive_iff_nonzero:
  assumes "\<forall>v. 0 \<le> kde v" and "total_significant_pacs C F sig \<noteq> 0"
  shows "np_gt (P_i_given_x_fragments (posterior_stage C F kde sig) i j frag) (Fin 0)
           \<longleftrightarrow> P_i_given_x_fragments (posterior_stage C F kde sig) i j frag \<noteq> Fin 0"
  using posterior_nonneg [OF assms, of i j frag] by auto

section \<open>The aggregate is a prevalence\<close>

lemma upt_0_2: "[0..<2] = [0, 1]"
  by (simp add: upt_rec numeral_2_eq_2)

lemma sum_lessThan_2: "(\<Sum>j<(2::nat). f j) = f 0 + f 1"
  by (simp add: numeral_2_eq_2 lessThan_Suc add.commute)

lemma sum_lessThan_1: "(\<Sum>j<Suc 0. f j) = f 0"
  by (simp add: lessThan_Suc)

lemma prior_example:
  "P_i 2 (Suc 0) (\<lambda>i j frag. if j = 0 then 1 else 0) 0 = Fin (1 / 2)"
  by (simp add: P_i_def total_significant_pacs_def significant_pac_counts_by_destination_eq
        upt_0_2 sum_lessThan_2 sum_lessThan_1)

lemma likelihood_example:
  "P_x_given_i (likelihood_stage 2 (Suc 0) (\<lambda>v. 1) (\<lambda>i j frag. if j = 0 then 1 else 0)) 0 0 0
     = 1 / 2"
  by (simp add: likelihood_stage_cell normalized_slice_def column_sum_def P_x_given_i_raw_cell
        upt_0_2)

lemma posterior_example:
  "P_i_given_x_fragments
     (posterior_stage 2 (Suc 0) (\<lambda>v. 1) (\<lambda>i j frag. if j = 0 then 1 else 0)) 0 0 0
     = Fin (1 / 2)"
  using evidence_example
  by (simp add: posterior_stage_cell bayes_slice_def np_ne_def prior_example likelihood_example)

lemma aggregate_example:
  "P_i_given_x_mean 2 1 (\<lambda>v. 1) (\<lambda>i j frag. if j = 0 then 1 else 0) 0 0 = Fin 1
   \<and> mean_of_posteriors 2 1 (\<lambda>v. 1) (\<lambda>i j frag. if j = 0 then 1 else 0) 0 0 = Fin (1 / 2)"
  by (simp add: P_i_given_x_mean_def mean_of_posteriors_def posterior_stage_counts
        posterior_example np_sum_def)

text \<open>
  C6. For a pair \<open>(i, j)\<close> inside the arrays, the aggregate posterior is the number of
  fragments whose posterior for the pair passes the test \<open>> 0\<close>, divided by the number
  of fragments. With a density that is never negative and at least one positive stored
  value, these are the fragments whose posterior is not zero. It is not the mean of the
  posterior values: for two channels, one fragment, source 0 significant for both
  destinations and a density constantly one, the posterior of the pair \<open>(0, 0)\<close> is 1/2;
  the aggregate is 1 and the mean would be 1/2.
\<close>

theorem aggregate_is_prevalence:
  assumes "0 < F" and "i < C" and "j < C"
    and "\<forall>v. 0 \<le> kde v" and "total_significant_pacs C F sig \<noteq> 0"
  shows "P_i_given_x_mean C F kde sig i j =
           Fin (real (card {frag. frag < F \<and>
                        np_gt (P_i_given_x_fragments (posterior_stage C F kde sig) i j frag)
                              (Fin 0)}) / real F)
         \<and> P_i_given_x_mean C F kde sig i j =
           Fin (real (card {frag. frag < F \<and>
                        P_i_given_x_fragments (posterior_stage C F kde sig) i j frag \<noteq> Fin 0})
                  / real F)
         \<and> P_i_given_x_mean 2 1 (\<lambda>v. 1) (\<lambda>i j frag. if j = 0 then 1 else 0) 0 0 = Fin 1
         \<and> mean_of_posteriors 2 1 (\<lambda>v. 1) (\<lambda>i j frag. if j = 0 then 1 else 0) 0 0
             = Fin (1 / 2)"
proof -
  let ?post = "\<lambda>frag. P_i_given_x_fragments (posterior_stage C F kde sig) i j frag"
  have a: "P_i_given_x_mean C F kde sig i j =
             Fin (real (card {frag. frag < F \<and> np_gt (?post frag) (Fin 0)}) / real F)"
    using assms(1,2,3)
    by (simp add: P_i_given_x_mean_Fin posterior_stage_counts indicator_sum_card)
  have "{frag. frag < F \<and> np_gt (?post frag) (Fin 0)} = {frag. frag < F \<and> ?post frag \<noteq> Fin 0}"
    using posterior_positive_iff_nonzero [OF assms(4,5)] by blast
  with a have b: "P_i_given_x_mean C F kde sig i j =
             Fin (real (card {frag. frag < F \<and> ?post frag \<noteq> Fin 0}) / real F)"
    by simp
  from a b aggregate_example show ?thesis by blast
qed

theorem aggregate_is_prevalence_witness:
  "total_significant_pacs 2 1 (\<lambda>i j frag. if j = 0 then 1 else 0) = 2
   \<and> P_i_given_x_mean 2 1 (\<lambda>v. 1) (\<lambda>i j frag. if j = 0 then 1 else 0) 0 0 =
       Fin (real (card {frag. frag < 1 \<and>
              P_i_given_x_fragments
                (posterior_stage 2 1 (\<lambda>v. 1) (\<lambda>i j frag. if j = 0 then 1 else 0)) 0 0 frag
              \<noteq> Fin 0}) / real 1)"
proof -
  have t: "total_significant_pacs 2 1 (\<lambda>i j frag. if j = 0 then 1 else 0) = 2"
    by (simp add: total_significant_pacs_def significant_pac_counts_by_destination_eq
          upt_0_2 sum_lessThan_2 sum_lessThan_1)
  have k: "\<forall>v::real. 0 \<le> (1::real)" by simp
  have nz: "total_significant_pacs 2 1 (\<lambda>i j frag. if j = 0 then 1 else 0) \<noteq> 0"
    using t by simp
  have p1: "(0::nat) < 1" and p2: "(0::nat) < 2" by simp_all
  from t aggregate_is_prevalence
        [of 1 0 2 0 "\<lambda>v. 1" "\<lambda>i j frag. if j = 0 then 1 else 0", OF p1 p2 p2 k nz]
  show ?thesis by blast
qed

section \<open>Claims about the density population\<close>


lemma flatten3_map:
  "flatten3 n0 n1 n2 (\<lambda>i j k. g (A i j k)) = map g (flatten3 n0 n1 n2 A)"
  by (simp add: flatten3_def map_concat comp_def)










section \<open>The prior in a run\<close>





section \<open>The stages after the filter read the positive stored values only\<close>

lemma filter_positive_clamp:
  "filter (\<lambda>v. 0 < v) (map (\<lambda>v. if 0 < v then v else 0) xs) = filter (\<lambda>v. 0 < v) (xs :: real list)"
  by (induction xs) auto

lemma positive_clamp_iff: "0 < (if 0 < v then v else 0) \<longleftrightarrow> 0 < (v::real)"
  by simp

lemma population_positive_part:
  "significant_pac_values_flat_fragments C F (\<lambda>i j frag. if 0 < sig i j frag then sig i j frag else 0)
     = significant_pac_values_flat_fragments C F sig"
proof -
  have "flatten3 C C F (\<lambda>i j frag. if 0 < sig i j frag then sig i j frag else 0)
          = map (\<lambda>v. if 0 < v then v else 0) (flatten3 C C F sig)"
    by (rule flatten3_map [where g = "\<lambda>v. if 0 < v then v else 0"])
  then show ?thesis
    by (simp only: significant_pac_values_flat_fragments_def filter_positive_clamp)
qed

lemma counts_positive_part:
  "significant_pac_counts_by_destination C F (\<lambda>i j frag. if 0 < sig i j frag then sig i j frag else 0)
     = significant_pac_counts_by_destination C F sig"
  by (rule ext) (simp only: significant_pac_counts_by_destination_eq positive_clamp_iff)

lemma raw_positive_part:
  "P_x_given_i_raw C F kde (\<lambda>i j frag. if 0 < sig i j frag then sig i j frag else 0)
     = P_x_given_i_raw C F kde sig"
  by (intro ext) (simp add: P_x_given_i_raw_cell)

lemma positive_part_set3:
  assumes "sig a b c \<le> 0"
  shows "(\<lambda>i j frag. if 0 < set3 sig a b c 0 i j frag then set3 sig a b c 0 i j frag else 0)
           = (\<lambda>i j frag. if 0 < sig i j frag then sig i j frag else (0::real))"
  using assms by (auto simp add: fun_eq_iff set3_apply)

lemma population_set3:
  assumes "sig a b c \<le> 0"
  shows "significant_pac_values_flat_fragments C F (set3 sig a b c 0)
           = significant_pac_values_flat_fragments C F sig"
  using population_positive_part [of C F "set3 sig a b c 0"] population_positive_part [of C F sig]
  by (simp only: positive_part_set3 [of sig a b c, OF assms])

lemma counts_set3:
  assumes "sig a b c \<le> 0"
  shows "significant_pac_counts_by_destination C F (set3 sig a b c 0)
           = significant_pac_counts_by_destination C F sig"
  using counts_positive_part [of C F "set3 sig a b c 0"] counts_positive_part [of C F sig]
  by (simp only: positive_part_set3 [of sig a b c, OF assms])

lemma raw_set3:
  assumes "sig a b c \<le> 0"
  shows "P_x_given_i_raw C F kde (set3 sig a b c 0) = P_x_given_i_raw C F kde sig"
  using raw_positive_part [of C F kde "set3 sig a b c 0"] raw_positive_part [of C F kde sig]
  by (simp only: positive_part_set3 [of sig a b c, OF assms])

lemma P_i_set3:
  assumes "sig a b c \<le> 0"
  shows "P_i C F (set3 sig a b c 0) = P_i C F sig"
  by (simp add: P_i_def total_significant_pacs_def counts_set3 [of sig a b c, OF assms])

lemma likelihood_stage_set3:
  assumes "sig a b c \<le> 0"
  shows "likelihood_stage C F kde (set3 sig a b c 0) = likelihood_stage C F kde sig"
  by (simp add: likelihood_stage_def raw_set3 [of sig a b c, OF assms])

lemma P_i_given_x_mean_set3:
  assumes "sig a b c \<le> 0"
  shows "P_i_given_x_mean C F kde (set3 sig a b c 0) = P_i_given_x_mean C F kde sig"
  by (simp add: P_i_given_x_mean_def posterior_stage_def evidence_def
        P_i_set3 [of sig a b c, OF assms] likelihood_stage_set3 [of sig a b c, OF assms])

lemma zero_likelihood_not_counted:
  assumes "P_x_given_i (likelihood_stage C F kde sig) a b c = 0"
  shows "\<not> np_gt (P_i_given_x_fragments (posterior_stage C F kde sig) a b c) (Fin 0)"
proof (cases "c < F \<and> a < C \<and> b < C")
  case True
  show ?thesis
    by (cases "P_i C F sig a"; cases "evidence C F kde sig b c")
       (simp_all add: posterior_stage_cell bayes_slice_def True assms inf_times_def)
next
  case False
  then show ?thesis by (auto simp add: posterior_stage_cell)
qed

text \<open>
  C10. Take an observation \<open>(a, b, c)\<close> inside the arrays that the test declares
  significant and whose coupling value is zero or negative. Its value is stored, and
  every later stage treats it as it treats a cell that was never significant (the
  same array with the cell at zero): the density population and the prior counts are
  the same, its raw and its normalised likelihood are zero and the whole likelihood
  stage is the same, its posterior never passes the test \<open>> 0\<close> of the aggregation,
  and the aggregate posterior is the same.
\<close>

theorem nonpositive_significant_value_ignored:
  assumes "a < C" and "b < C" and "c < F"
    and "is_significant np_mean np_std thr (pac a b c) (surr a b c)" and "pac a b c \<le> 0"
  shows "let sig = significant_pac_values_fragments (significance_loop np_mean np_std C F thr pac surr);
             sig0 = set3 sig a b c 0
         in sig a b c = pac a b c
            \<and> significant_pac_values_flat_fragments C F sig
                = significant_pac_values_flat_fragments C F sig0
            \<and> significant_pac_counts_by_destination C F sig
                = significant_pac_counts_by_destination C F sig0
            \<and> P_x_given_i_raw C F kde sig a b c = 0
            \<and> P_x_given_i (likelihood_stage C F kde sig) a b c = 0
            \<and> likelihood_stage C F kde sig = likelihood_stage C F kde sig0
            \<and> \<not> np_gt (P_i_given_x_fragments (posterior_stage C F kde sig) a b c) (Fin 0)
            \<and> P_i_given_x_mean C F kde sig = P_i_given_x_mean C F kde sig0"
proof -
  define sig where "sig = significant_pac_values_fragments (significance_loop np_mean np_std C F thr pac surr)"
  have stored: "sig a b c = pac a b c"
    using assms(1-4) by (simp add: sig_def significant_pac_values_fragments_cell)
  with assms(5) have le: "sig a b c \<le> 0" by simp
  have raw: "P_x_given_i_raw C F kde sig a b c = 0"
    using le by (simp add: P_x_given_i_raw_cell)
  have lik: "P_x_given_i (likelihood_stage C F kde sig) a b c = 0"
    using raw by (simp add: likelihood_stage_cell normalized_slice_def)
  have "sig a b c = pac a b c
        \<and> significant_pac_values_flat_fragments C F sig
            = significant_pac_values_flat_fragments C F (set3 sig a b c 0)
        \<and> significant_pac_counts_by_destination C F sig
            = significant_pac_counts_by_destination C F (set3 sig a b c 0)
        \<and> P_x_given_i_raw C F kde sig a b c = 0
        \<and> P_x_given_i (likelihood_stage C F kde sig) a b c = 0
        \<and> likelihood_stage C F kde sig = likelihood_stage C F kde (set3 sig a b c 0)
        \<and> \<not> np_gt (P_i_given_x_fragments (posterior_stage C F kde sig) a b c) (Fin 0)
        \<and> P_i_given_x_mean C F kde sig = P_i_given_x_mean C F kde (set3 sig a b c 0)"
    using stored raw lik zero_likelihood_not_counted [OF lik]
      population_set3 [of sig a b c C F, OF le] counts_set3 [of sig a b c C F, OF le]
      likelihood_stage_set3 [of sig a b c C F kde, OF le]
      P_i_given_x_mean_set3 [of sig a b c C F kde, OF le]
    by simp
  then show ?thesis unfolding sig_def Let_def .
qed

lemma is_significant_example: "is_significant (\<lambda>xs. Fin 1) (\<lambda>xs. Fin 1) (Fin 1) (- 3) [0, 2]"
  by (simp add: is_significant_def z_score_def Let_def np_sub_def)

theorem nonpositive_significant_value_ignored_witness:
  "is_significant (\<lambda>xs. Fin 1) (\<lambda>xs. Fin 1) (Fin 1) (- 3) [0, 2]
   \<and> significant_pac_values_fragments
        (significance_loop (\<lambda>xs. Fin 1) (\<lambda>xs. Fin 1) 1 1 (Fin 1) (\<lambda>i j frag. - 3) (\<lambda>i j frag. [0, 2])) 0 0 0 = - 3
   \<and> P_x_given_i (likelihood_stage 1 1 (\<lambda>v. 1)
        (significant_pac_values_fragments
           (significance_loop (\<lambda>xs. Fin 1) (\<lambda>xs. Fin 1) 1 1 (Fin 1) (\<lambda>i j frag. - 3) (\<lambda>i j frag. [0, 2])))) 0 0 0 = 0
   \<and> \<not> np_gt (P_i_given_x_fragments (posterior_stage 1 1 (\<lambda>v. 1)
        (significant_pac_values_fragments
           (significance_loop (\<lambda>xs. Fin 1) (\<lambda>xs. Fin 1) 1 1 (Fin 1) (\<lambda>i j frag. - 3) (\<lambda>i j frag. [0, 2])))) 0 0 0) (Fin 0)"
proof -
  have p: "(0::nat) < 1" by simp
  have le: "(- 3 :: real) \<le> 0" by simp
  from is_significant_example
    nonpositive_significant_value_ignored
      [where a = 0 and C = 1 and b = 0 and c = 0 and F = 1 and thr = "Fin 1"
         and pac = "\<lambda>i j frag. - 3" and surr = "\<lambda>i j frag. [0, 2]" and kde = "\<lambda>v. 1"
         and np_mean = "\<lambda>xs. Fin 1" and np_std = "\<lambda>xs. Fin 1",
       OF p p p is_significant_example le]
  show ?thesis unfolding Let_def by blast
qed

end
